theory Spec2Isabelle
  imports Main
begin

section \<open>Client side of the scheduler RPC API (cinder/scheduler/rpcapi.py)\<close>

subsection \<open>Values, errors and versions\<close>

text \<open>
  The values that cross the interface of \<open>SchedulerAPI\<close>. Domain objects (the request
  context, a volume, a group) are only handed on by the class, so they are opaque
  \<open>PObj\<close> values; \<open>PDatetime\<close> is the value of \<open>timeutils.utcnow()\<close>.
\<close>

datatype pyval =
    PNone
  | PBool bool
  | PInt int
  | PStr string
  | PList "pyval list"
  | PDict "(pyval \<times> pyval) list"
  | PObj nat
  | PDatetime int

text \<open>
  \<open>ServiceTooOld\<close> carries the message of the source (the argument of \<open>_\<close>, which only
  marks it for translation); \<open>TypeError\<close> is what Python raises on iterating a value that
  is not iterable.
\<close>

datatype error = ServiceTooOld string | TypeError

text \<open>
  The source writes a version as the string \<open>'M.m'\<close>; the pair \<open>(M, m)\<close> is that string
  as the transport reads it.
\<close>

type_synonym version = "nat \<times> nat"

definition version_le :: "version \<Rightarrow> version \<Rightarrow> bool" where
  "version_le a b = (fst a < fst b \<or> (fst a = fst b \<and> snd a \<le> snd b))"

definition version_lt :: "version \<Rightarrow> version \<Rightarrow> bool" where
  "version_lt a b = (fst a < fst b \<or> (fst a = fst b \<and> snd a < snd b))"

subsection \<open>Python's truth value and iteration\<close>

text \<open>The truth value that \<open>x or y\<close> tests.\<close>

fun truthy :: "pyval \<Rightarrow> bool" where
  "truthy PNone = False"
| "truthy (PBool b) = b"
| "truthy (PInt i) = (i \<noteq> 0)"
| "truthy (PStr s) = (s \<noteq> [])"
| "truthy (PList xs) = (xs \<noteq> [])"
| "truthy (PDict kvs) = (kvs \<noteq> [])"
| "truthy (PObj n) = True"
| "truthy (PDatetime t) = True"

text \<open>
  The items a \<open>for\<close> clause runs over: the elements of a list, the keys of a dict, the
  characters of a string; \<open>None\<close>, a number and an opaque object raise \<open>TypeError\<close>.
\<close>

fun py_iter :: "pyval \<Rightarrow> error + pyval list" where
  "py_iter (PList xs) = Inr xs"
| "py_iter (PDict kvs) = Inr (map fst kvs)"
| "py_iter (PStr s) = Inr (map (\<lambda>c. PStr [c]) s)"
| "py_iter PNone = Inl TypeError"
| "py_iter (PBool b) = Inl TypeError"
| "py_iter (PInt i) = Inl TypeError"
| "py_iter (PObj n) = Inl TypeError"
| "py_iter (PDatetime t) = Inl TypeError"

subsection \<open>The transport\<close>

text \<open>
  What a method of the Transport Client is invoked with: the version and the \<open>fanout\<close>
  flag that \<open>_get_cctxt\<close> was given (\<open>None\<close> when the source passes no version and the
  base class picks its default), the delivery method (\<open>cast\<close> or \<open>call\<close>), the request
  context, the remote method's name and the keyword arguments.
\<close>

datatype mode = Cast | Call

record envelope =
  e_version :: "version option"
  e_fanout :: bool
  e_mode :: mode
  e_ctxt :: pyval
  e_method :: string
  e_args :: "string \<rightharpoonup> pyval"

text \<open>
  The effects of the class are a trace of events: the calls of \<open>volume.create_worker()\<close>
  and the invocations of the Transport Client. The world also holds the reading of the
  clock, which \<open>timeutils.utcnow()\<close> returns.
\<close>

datatype event = CreateWorker pyval | Transport envelope

record world =
  utcnow :: int
  trace :: "event list"

text \<open>
  The messaging client bound to the instance (\<open>self.client\<close>): the maximum version the
  remote endpoint accepts, and what the remote end replies to a \<open>call\<close>.
\<close>

record rpc_client =
  version_cap :: version
  call_reply :: "envelope \<Rightarrow> pyval"

text \<open>
  An instance of \<open>SchedulerAPI\<close> with its collaborators: its client and the Codec
  \<open>jsonutils.to_primitive\<close>, which is external and taken as a parameter.
\<close>

record scheduler_api =
  client :: rpc_client
  to_primitive :: "pyval \<Rightarrow> pyval"

text \<open>
  Modelled from the spec: the capability predicate of the Transport Client
  (\<open>can_send_version\<close> of the messaging library, which is not under src/). A candidate
  version is supported when the endpoint's maximum version is at least that high, in the
  order on \<open>major.minor\<close>.
\<close>

definition can_send_version :: "rpc_client \<Rightarrow> version \<Rightarrow> bool" where
  "can_send_version c v = version_le v (version_cap c)"

text \<open>The prepared call context that \<open>_get_cctxt\<close> returns.\<close>

record cctxt =
  cc_client :: rpc_client
  cc_version :: "version option"
  cc_fanout :: bool

definition get_cctxt :: "scheduler_api \<Rightarrow> version option \<Rightarrow> bool \<Rightarrow> cctxt" where
  "get_cctxt self v f = \<lparr>cc_client = client self, cc_version = v, cc_fanout = f\<rparr>"

definition cctxt_can_send_version :: "cctxt \<Rightarrow> version \<Rightarrow> bool" where
  "cctxt_can_send_version cc v = can_send_version (cc_client cc) v"

definition mk_envelope :: "cctxt \<Rightarrow> mode \<Rightarrow> pyval \<Rightarrow> string \<Rightarrow> (string \<rightharpoonup> pyval) \<Rightarrow> envelope" where
  "mk_envelope cc md ctxt m a =
     \<lparr>e_version = cc_version cc, e_fanout = cc_fanout cc, e_mode = md, e_ctxt = ctxt,
      e_method = m, e_args = a\<rparr>"

text \<open>
  \<open>cctxt.cast\<close> hands the envelope to the transport and returns \<open>None\<close>; \<open>cctxt.call\<close>
  returns the reply. Failures inside the transport are not raised by this class and are
  not part of the model.
\<close>

definition cast :: "cctxt \<Rightarrow> pyval \<Rightarrow> string \<Rightarrow> (string \<rightharpoonup> pyval) \<Rightarrow> world \<Rightarrow> (error + pyval) \<times> world" where
  "cast cc ctxt m a w =
     (Inr PNone, w\<lparr>trace := trace w @ [Transport (mk_envelope cc Cast ctxt m a)]\<rparr>)"

definition call :: "cctxt \<Rightarrow> pyval \<Rightarrow> string \<Rightarrow> (string \<rightharpoonup> pyval) \<Rightarrow> world \<Rightarrow> (error + pyval) \<times> world" where
  "call cc ctxt m a w =
     (Inr (call_reply (cc_client cc) (mk_envelope cc Call ctxt m a)),
      w\<lparr>trace := trace w @ [Transport (mk_envelope cc Call ctxt m a)]\<rparr>)"

text \<open>\<open>volume.create_worker()\<close>: the call is recorded; its result is dropped by the source.\<close>

definition create_worker :: "pyval \<Rightarrow> world \<Rightarrow> world" where
  "create_worker volume w = w\<lparr>trace := trace w @ [CreateWorker volume]\<rparr>"

subsection \<open>The operations of \<open>SchedulerAPI\<close>\<close>

definition create_consistencygroup ::
  "scheduler_api \<Rightarrow> pyval \<Rightarrow> pyval \<Rightarrow> pyval \<Rightarrow> pyval \<Rightarrow> world \<Rightarrow> (error + pyval) \<times> world" where
  "create_consistencygroup self ctxt grp request_spec_list filter_properties_list w =
     (let cc = get_cctxt self None False in
      case py_iter request_spec_list of
        Inl e \<Rightarrow> (Inl e, w)
      | Inr rsl \<Rightarrow>
          (let request_spec_p_list = PList (map (to_primitive self) rsl);
               msg_args = [''group'' \<mapsto> grp,
                           ''request_spec_list'' \<mapsto> request_spec_p_list,
                           ''filter_properties_list'' \<mapsto> filter_properties_list]
           in cast cc ctxt ''create_consistencygroup'' msg_args w))"

definition create_group ::
  "scheduler_api \<Rightarrow> pyval \<Rightarrow> pyval \<Rightarrow> pyval \<Rightarrow> pyval \<Rightarrow> pyval \<Rightarrow> pyval \<Rightarrow> world
     \<Rightarrow> (error + pyval) \<times> world" where
  "create_group self ctxt grp group_spec request_spec_list group_filter_properties
       filter_properties_list w =
     (let cc = get_cctxt self None False in
      case py_iter request_spec_list of
        Inl e \<Rightarrow> (Inl e, w)
      | Inr rsl \<Rightarrow>
          (let request_spec_p_list = PList (map (to_primitive self) rsl);
               group_spec_p = to_primitive self group_spec;
               msg_args = [''group'' \<mapsto> grp,
                           ''group_spec'' \<mapsto> group_spec_p,
                           ''request_spec_list'' \<mapsto> request_spec_p_list,
                           ''group_filter_properties'' \<mapsto> group_filter_properties,
                           ''filter_properties_list'' \<mapsto> filter_properties_list]
           in cast cc ctxt ''create_group'' msg_args w))"

definition create_volume ::
  "scheduler_api \<Rightarrow> pyval \<Rightarrow> pyval \<Rightarrow> pyval \<Rightarrow> pyval \<Rightarrow> pyval \<Rightarrow> pyval \<Rightarrow> world
     \<Rightarrow> (error + pyval) \<times> world" where
  "create_volume self ctxt volume snapshot_id image_id request_spec filter_properties w =
     (let w1 = create_worker volume w;
          cc = get_cctxt self None False;
          msg_args = [''snapshot_id'' \<mapsto> snapshot_id,
                      ''image_id'' \<mapsto> image_id,
                      ''request_spec'' \<mapsto> request_spec,
                      ''filter_properties'' \<mapsto> filter_properties,
                      ''volume'' \<mapsto> volume]
      in cast cc ctxt ''create_volume'' msg_args w1)"

definition migrate_volume ::
  "scheduler_api \<Rightarrow> pyval \<Rightarrow> pyval \<Rightarrow> pyval \<Rightarrow> pyval \<Rightarrow> pyval \<Rightarrow> pyval \<Rightarrow> world
     \<Rightarrow> (error + pyval) \<times> world" where
  "migrate_volume self ctxt volume backend force_copy request_spec filter_properties w =
     (let request_spec_p = to_primitive self request_spec;
          msg_args = [''request_spec'' \<mapsto> request_spec_p,
                      ''filter_properties'' \<mapsto> filter_properties,
                      ''volume'' \<mapsto> volume]
      in if can_send_version (client self) (3, 3)
         then cast (get_cctxt self (Some (3, 3)) False) ctxt ''migrate_volume''
                (msg_args(''backend'' \<mapsto> backend, ''force_copy'' \<mapsto> force_copy)) w
         else cast (get_cctxt self (Some (3, 0)) False) ctxt ''migrate_volume_to_host''
                (msg_args(''host'' \<mapsto> backend, ''force_host_copy'' \<mapsto> force_copy)) w)"

definition retype ::
  "scheduler_api \<Rightarrow> pyval \<Rightarrow> pyval \<Rightarrow> pyval \<Rightarrow> pyval \<Rightarrow> world \<Rightarrow> (error + pyval) \<times> world" where
  "retype self ctxt volume request_spec filter_properties w =
     (let cc = get_cctxt self None False;
          request_spec_p = to_primitive self request_spec;
          msg_args = [''request_spec'' \<mapsto> request_spec_p,
                      ''filter_properties'' \<mapsto> filter_properties,
                      ''volume'' \<mapsto> volume]
      in cast cc ctxt ''retype'' msg_args w)"

definition manage_existing ::
  "scheduler_api \<Rightarrow> pyval \<Rightarrow> pyval \<Rightarrow> pyval \<Rightarrow> pyval \<Rightarrow> world \<Rightarrow> (error + pyval) \<times> world" where
  "manage_existing self ctxt volume request_spec filter_properties w =
     (let cc = get_cctxt self None False;
          request_spec_p = to_primitive self request_spec;
          msg_args = [''request_spec'' \<mapsto> request_spec_p,
                      ''filter_properties'' \<mapsto> filter_properties,
                      ''volume'' \<mapsto> volume]
      in cast cc ctxt ''manage_existing'' msg_args w)"

definition extend_volume ::
  "scheduler_api \<Rightarrow> pyval \<Rightarrow> pyval \<Rightarrow> pyval \<Rightarrow> pyval \<Rightarrow> pyval \<Rightarrow> pyval \<Rightarrow> world
     \<Rightarrow> (error + pyval) \<times> world" where
  "extend_volume self ctxt volume new_size reservations request_spec filter_properties w =
     (let cc = get_cctxt self None False in
      if \<not> cctxt_can_send_version cc (3, 2)
      then (Inl (ServiceTooOld
              ''extend_volume requires cinder-scheduler RPC API version >= 3.2.''), w)
      else
        (let request_spec_p = to_primitive self request_spec;
             msg_args = [''volume'' \<mapsto> volume,
                         ''new_size'' \<mapsto> new_size,
                         ''reservations'' \<mapsto> reservations,
                         ''request_spec'' \<mapsto> request_spec_p,
                         ''filter_properties'' \<mapsto> filter_properties]
         in cast cc ctxt ''extend_volume'' msg_args w))"

definition get_pools ::
  "scheduler_api \<Rightarrow> pyval \<Rightarrow> pyval \<Rightarrow> world \<Rightarrow> (error + pyval) \<times> world" where
  "get_pools self ctxt filters w =
     (let cc = get_cctxt self None False
      in call cc ctxt ''get_pools'' [''filters'' \<mapsto> filters] w)"

text \<open>
  \<open>update_service_capabilities\<close> has no \<open>return\<close>: its value is \<open>None\<close>, which is also what
  \<open>cast\<close> gives.
\<close>

definition update_service_capabilities ::
  "scheduler_api \<Rightarrow> pyval \<Rightarrow> pyval \<Rightarrow> pyval \<Rightarrow> pyval \<Rightarrow> pyval \<Rightarrow> pyval \<Rightarrow> world
     \<Rightarrow> (error + pyval) \<times> world" where
  "update_service_capabilities self ctxt service_name host capabilities cluster_name
       timestamp w =
     (let msg_args = [''service_name'' \<mapsto> service_name,
                      ''host'' \<mapsto> host,
                      ''capabilities'' \<mapsto> capabilities]
      in if can_send_version (client self) (3, 3)
         then
           (let timestamp1 = (if truthy timestamp then timestamp else PDatetime (utcnow w))
            in cast (get_cctxt self (Some (3, 3)) True) ctxt ''update_service_capabilities''
                 (msg_args(''cluster_name'' \<mapsto> cluster_name,
                           ''timestamp'' \<mapsto> to_primitive self timestamp1)) w)
         else cast (get_cctxt self (Some (3, 0)) True) ctxt ''update_service_capabilities''
                msg_args w)"

definition notify_service_capabilities ::
  "scheduler_api \<Rightarrow> pyval \<Rightarrow> pyval \<Rightarrow> pyval \<Rightarrow> pyval \<Rightarrow> world \<Rightarrow> (error + pyval) \<times> world" where
  "notify_service_capabilities self ctxt service_name host capabilities w =
     (let cc = get_cctxt self (Some (3, 1)) False in
      if \<not> cctxt_can_send_version cc (3, 1)
      then (Inl (ServiceTooOld
              ''notify_service_capabilities requires cinder-scheduler RPC API version >= 3.1.''), w)
      else cast cc ctxt ''notify_service_capabilities''
             [''service_name'' \<mapsto> service_name,
              ''host'' \<mapsto> host,
              ''capabilities'' \<mapsto> capabilities] w)"


subsection \<open>One invocation of a public method\<close>

text \<open>A call of one of the public methods, with its arguments in the order of the source.\<close>

datatype request =
    CreateConsistencygroup pyval pyval pyval pyval
  | CreateGroup pyval pyval pyval pyval pyval pyval
  | CreateVolume pyval pyval pyval pyval pyval pyval
  | MigrateVolume pyval pyval pyval pyval pyval pyval
  | Retype pyval pyval pyval pyval
  | ManageExisting pyval pyval pyval pyval
  | ExtendVolume pyval pyval pyval pyval pyval pyval
  | GetPools pyval pyval
  | UpdateServiceCapabilities pyval pyval pyval pyval pyval pyval
  | NotifyServiceCapabilities pyval pyval pyval pyval

fun invoke :: "scheduler_api \<Rightarrow> request \<Rightarrow> world \<Rightarrow> (error + pyval) \<times> world" where
  "invoke self (CreateConsistencygroup ctxt grp request_spec_list filter_properties_list) w =
     create_consistencygroup self ctxt grp request_spec_list filter_properties_list w"
| "invoke self (CreateGroup ctxt grp group_spec request_spec_list group_filter_properties
       filter_properties_list) w =
     create_group self ctxt grp group_spec request_spec_list group_filter_properties
       filter_properties_list w"
| "invoke self (CreateVolume ctxt volume snapshot_id image_id rs fp) w =
     create_volume self ctxt volume snapshot_id image_id rs fp w"
| "invoke self (MigrateVolume ctxt volume backend force_copy rs fp) w =
     migrate_volume self ctxt volume backend force_copy rs fp w"
| "invoke self (Retype ctxt volume rs fp) w = retype self ctxt volume rs fp w"
| "invoke self (ManageExisting ctxt volume rs fp) w = manage_existing self ctxt volume rs fp w"
| "invoke self (ExtendVolume ctxt volume new_size reservations rs fp) w =
     extend_volume self ctxt volume new_size reservations rs fp w"
| "invoke self (GetPools ctxt filters) w = get_pools self ctxt filters w"
| "invoke self (UpdateServiceCapabilities ctxt service_name host capabilities cluster_name ts) w =
     update_service_capabilities self ctxt service_name host capabilities cluster_name ts w"
| "invoke self (NotifyServiceCapabilities ctxt service_name host capabilities) w =
     notify_service_capabilities self ctxt service_name host capabilities w"

text \<open>The events an invocation adds to the trace, and the envelopes among them.\<close>

definition effects :: "scheduler_api \<Rightarrow> request \<Rightarrow> world \<Rightarrow> event list" where
  "effects self rq w = drop (length (trace w)) (trace (snd (invoke self rq w)))"

fun envelopes :: "event list \<Rightarrow> envelope list" where
  "envelopes [] = []"
| "envelopes (Transport e # evs) = e # envelopes evs"
| "envelopes (CreateWorker v # evs) = envelopes evs"

definition sent :: "scheduler_api \<Rightarrow> request \<Rightarrow> world \<Rightarrow> envelope list" where
  "sent self rq w = envelopes (effects self rq w)"

definition built_args :: "scheduler_api \<Rightarrow> request \<Rightarrow> world \<Rightarrow> (string \<rightharpoonup> pyval) list" where
  "built_args self rq w = map e_args (sent self rq w)"

fun is_transport :: "event \<Rightarrow> bool" where
  "is_transport (Transport e) = True"
| "is_transport (CreateWorker v) = False"

text \<open>The calls of \<open>create_worker\<close> that a request makes: \<open>create_volume\<close> alone has one.\<close>

fun worker_calls :: "request \<Rightarrow> event list" where
  "worker_calls (CreateVolume ctxt volume snapshot_id image_id rs fp) = [CreateWorker volume]"
| "worker_calls rq = []"

text \<open>
  The one invocation that reads the clock: \<open>update_service_capabilities\<close> against a
  client that can send 3.3, with a timestamp that is \<open>None\<close> or false otherwise.
\<close>

fun reads_clock :: "scheduler_api \<Rightarrow> request \<Rightarrow> bool" where
  "reads_clock self (UpdateServiceCapabilities ctxt service_name host capabilities cluster_name ts) =
     (can_send_version (client self) (3, 3) \<and> \<not> truthy ts)"
| "reads_clock self rq = False"

subsection \<open>Sample collaborators\<close>

text \<open>
  A Codec that renders a datetime as its number and leaves the other values as they are,
  and an instance whose endpoint accepts up to the given version and answers every
  \<open>call\<close> with an empty list.
\<close>

fun sample_codec :: "pyval \<Rightarrow> pyval" where
  "sample_codec (PDatetime t) = PInt t"
| "sample_codec v = v"

definition sample_api :: "version \<Rightarrow> scheduler_api" where
  "sample_api cap =
     \<lparr>client = \<lparr>version_cap = cap, call_reply = (\<lambda>e. PList [])\<rparr>,
      to_primitive = sample_codec\<rparr>"

definition world0 :: world where
  "world0 = \<lparr>utcnow = 1000, trace = []\<rparr>"


section \<open>Properties\<close>

subsection \<open>Shared facts\<close>

lemma version_lt_iff: "version_lt a b = (\<not> version_le b a)"
  by (auto simp: version_lt_def version_le_def)

lemmas op_defs = Let_def get_cctxt_def cctxt_can_send_version_def cast_def call_def
  mk_envelope_def create_worker_def

lemma migrate_volume_new:
  assumes "can_send_version (client self) (3, 3)"
  shows "migrate_volume self ctxt volume backend force_copy request_spec filter_properties w =
     (Inr PNone, w\<lparr>trace := trace w @ [Transport
        \<lparr>e_version = Some (3, 3), e_fanout = False, e_mode = Cast, e_ctxt = ctxt,
         e_method = ''migrate_volume'',
         e_args = [''request_spec'' \<mapsto> to_primitive self request_spec,
                   ''filter_properties'' \<mapsto> filter_properties,
                   ''volume'' \<mapsto> volume,
                   ''backend'' \<mapsto> backend,
                   ''force_copy'' \<mapsto> force_copy]\<rparr>]\<rparr>)"
  using assms by (simp add: migrate_volume_def op_defs)

lemma migrate_volume_legacy:
  assumes "\<not> can_send_version (client self) (3, 3)"
  shows "migrate_volume self ctxt volume backend force_copy request_spec filter_properties w =
     (Inr PNone, w\<lparr>trace := trace w @ [Transport
        \<lparr>e_version = Some (3, 0), e_fanout = False, e_mode = Cast, e_ctxt = ctxt,
         e_method = ''migrate_volume_to_host'',
         e_args = [''request_spec'' \<mapsto> to_primitive self request_spec,
                   ''filter_properties'' \<mapsto> filter_properties,
                   ''volume'' \<mapsto> volume,
                   ''host'' \<mapsto> backend,
                   ''force_host_copy'' \<mapsto> force_copy]\<rparr>]\<rparr>)"
  using assms by (simp add: migrate_volume_def op_defs)

lemma sample_api_codec: "to_primitive (sample_api v) = sample_codec"
  by (simp add: sample_api_def)

lemma sample_api_cap: "version_cap (client (sample_api v)) = v"
  by (simp add: sample_api_def)

subsection \<open>The hard gate of \<open>extend_volume\<close>\<close>

text \<open>
  C1. Every call of \<open>extend_volume\<close> against a client whose version cap is below 3.2
  raises \<open>ServiceTooOld\<close>, and the world is the one before the call: nothing was handed
  to the transport (no cast, call or fanout cast), so the exception comes before any
  message is sent.
\<close>

theorem extend_volume_too_old:
  assumes "version_lt (version_cap (client self)) (3, 2)"
  shows "extend_volume self ctxt volume new_size reservations request_spec filter_properties w =
           (Inl (ServiceTooOld
              ''extend_volume requires cinder-scheduler RPC API version >= 3.2.''), w)"
  using assms
  by (simp add: extend_volume_def get_cctxt_def cctxt_can_send_version_def
      can_send_version_def version_lt_iff)

theorem extend_volume_too_old_witness:
  "version_lt (version_cap (client (sample_api (3, 1)))) (3, 2) \<and>
   extend_volume (sample_api (3, 1)) (PObj 0) (PObj 1) (PInt 2) (PList []) PNone PNone world0 =
     (Inl (ServiceTooOld ''extend_volume requires cinder-scheduler RPC API version >= 3.2.''),
      world0)"
proof -
  have h: "version_lt (version_cap (client (sample_api (3, 1)))) (3, 2)"
    by (simp add: sample_api_def version_lt_def)
  show ?thesis
    using h extend_volume_too_old [OF h] by simp
qed

subsection \<open>The two shapes of \<open>migrate_volume\<close>\<close>

text \<open>
  C2. Every call of \<open>migrate_volume\<close> casts exactly one envelope and raises nothing. When
  the client can send 3.3 the envelope is \<open>migrate_volume\<close> at version 3.3 with the
  arguments \<open>backend\<close> and \<open>force_copy\<close>; when it cannot, the envelope is
  \<open>migrate_volume_to_host\<close> at version 3.0 with the same two values under \<open>host\<close> and
  \<open>force_host_copy\<close>.
\<close>

theorem migrate_volume_shapes:
  "(can_send_version (client self) (3, 3) \<longrightarrow>
      migrate_volume self ctxt volume backend force_copy request_spec filter_properties w =
        (Inr PNone, w\<lparr>trace := trace w @ [Transport
           \<lparr>e_version = Some (3, 3), e_fanout = False, e_mode = Cast, e_ctxt = ctxt,
            e_method = ''migrate_volume'',
            e_args = [''request_spec'' \<mapsto> to_primitive self request_spec,
                      ''filter_properties'' \<mapsto> filter_properties,
                      ''volume'' \<mapsto> volume,
                      ''backend'' \<mapsto> backend,
                      ''force_copy'' \<mapsto> force_copy]\<rparr>]\<rparr>)) \<and>
   (\<not> can_send_version (client self) (3, 3) \<longrightarrow>
      migrate_volume self ctxt volume backend force_copy request_spec filter_properties w =
        (Inr PNone, w\<lparr>trace := trace w @ [Transport
           \<lparr>e_version = Some (3, 0), e_fanout = False, e_mode = Cast, e_ctxt = ctxt,
            e_method = ''migrate_volume_to_host'',
            e_args = [''request_spec'' \<mapsto> to_primitive self request_spec,
                      ''filter_properties'' \<mapsto> filter_properties,
                      ''volume'' \<mapsto> volume,
                      ''host'' \<mapsto> backend,
                      ''force_host_copy'' \<mapsto> force_copy]\<rparr>]\<rparr>))"
  using migrate_volume_new migrate_volume_legacy by blast

theorem migrate_volume_shapes_witness:
  "can_send_version (client (sample_api (3, 3))) (3, 3) \<and>
   migrate_volume (sample_api (3, 3)) (PObj 0) (PObj 1) (PStr ''backendA'') (PBool True)
       PNone PNone world0 =
     (Inr PNone, \<lparr>utcnow = 1000, trace = [Transport
        \<lparr>e_version = Some (3, 3), e_fanout = False, e_mode = Cast, e_ctxt = PObj 0,
         e_method = ''migrate_volume'',
         e_args = [''request_spec'' \<mapsto> PNone,
                   ''filter_properties'' \<mapsto> PNone,
                   ''volume'' \<mapsto> PObj 1,
                   ''backend'' \<mapsto> PStr ''backendA'',
                   ''force_copy'' \<mapsto> PBool True]\<rparr>]\<rparr>) \<and>
   \<not> can_send_version (client (sample_api (3, 0))) (3, 3) \<and>
   migrate_volume (sample_api (3, 0)) (PObj 0) (PObj 1) (PStr ''backendA'') (PBool True)
       PNone PNone world0 =
     (Inr PNone, \<lparr>utcnow = 1000, trace = [Transport
        \<lparr>e_version = Some (3, 0), e_fanout = False, e_mode = Cast, e_ctxt = PObj 0,
         e_method = ''migrate_volume_to_host'',
         e_args = [''request_spec'' \<mapsto> PNone,
                   ''filter_properties'' \<mapsto> PNone,
                   ''volume'' \<mapsto> PObj 1,
                   ''host'' \<mapsto> PStr ''backendA'',
                   ''force_host_copy'' \<mapsto> PBool True]\<rparr>]\<rparr>)"
proof -
  have a: "can_send_version (client (sample_api (3, 3))) (3, 3)"
    by (simp add: sample_api_def can_send_version_def version_le_def)
  have b: "\<not> can_send_version (client (sample_api (3, 0))) (3, 3)"
    by (simp add: sample_api_def can_send_version_def version_le_def)
  show ?thesis
    using a b
      migrate_volume_shapes [where self = "sample_api (3, 3)" and ctxt = "PObj 0"
        and volume = "PObj 1" and backend = "PStr ''backendA''" and force_copy = "PBool True"
        and request_spec = PNone and filter_properties = PNone and w = world0]
      migrate_volume_shapes [where self = "sample_api (3, 0)" and ctxt = "PObj 0"
        and volume = "PObj 1" and backend = "PStr ''backendA''" and force_copy = "PBool True"
        and request_spec = PNone and filter_properties = PNone and w = world0]
    by (simp add: sample_api_codec world0_def)
qed

subsection \<open>The hard gate of \<open>notify_service_capabilities\<close>\<close>

text \<open>
  C3. \<open>notify_service_capabilities\<close> against a version cap of exactly 3.1 casts its
  envelope and raises nothing, and so does every cap of at least 3.1; against a cap
  strictly below 3.1 it raises \<open>ServiceTooOld\<close> and leaves the world as it was, so the
  transport is not invoked. The gate is "at least 3.1", with no slip at the boundary.
\<close>

theorem notify_service_capabilities_gate:
  "(version_cap (client self) = (3, 1) \<or> version_le (3, 1) (version_cap (client self)) \<longrightarrow>
      notify_service_capabilities self ctxt service_name host capabilities w =
        (Inr PNone, w\<lparr>trace := trace w @ [Transport
           \<lparr>e_version = Some (3, 1), e_fanout = False, e_mode = Cast, e_ctxt = ctxt,
            e_method = ''notify_service_capabilities'',
            e_args = [''service_name'' \<mapsto> service_name,
                      ''host'' \<mapsto> host,
                      ''capabilities'' \<mapsto> capabilities]\<rparr>]\<rparr>)) \<and>
   (version_lt (version_cap (client self)) (3, 1) \<longrightarrow>
      notify_service_capabilities self ctxt service_name host capabilities w =
        (Inl (ServiceTooOld
           ''notify_service_capabilities requires cinder-scheduler RPC API version >= 3.1.''),
         w))"
  by (auto simp add: notify_service_capabilities_def op_defs can_send_version_def
      version_lt_iff version_le_def)

theorem notify_service_capabilities_gate_witness:
  "version_cap (client (sample_api (3, 1))) = (3, 1) \<and>
   notify_service_capabilities (sample_api (3, 1)) (PObj 0) (PStr ''cinder-volume'')
       (PStr ''host1'') (PDict []) world0 =
     (Inr PNone, \<lparr>utcnow = 1000, trace = [Transport
        \<lparr>e_version = Some (3, 1), e_fanout = False, e_mode = Cast, e_ctxt = PObj 0,
         e_method = ''notify_service_capabilities'',
         e_args = [''service_name'' \<mapsto> PStr ''cinder-volume'',
                   ''host'' \<mapsto> PStr ''host1'',
                   ''capabilities'' \<mapsto> PDict []]\<rparr>]\<rparr>) \<and>
   version_lt (version_cap (client (sample_api (3, 0)))) (3, 1) \<and>
   notify_service_capabilities (sample_api (3, 0)) (PObj 0) (PStr ''cinder-volume'')
       (PStr ''host1'') (PDict []) world0 =
     (Inl (ServiceTooOld
        ''notify_service_capabilities requires cinder-scheduler RPC API version >= 3.1.''),
      world0)"
proof -
  have a: "version_cap (client (sample_api (3, 1))) = (3, 1)"
    by (simp add: sample_api_def)
  have b: "version_lt (version_cap (client (sample_api (3, 0)))) (3, 1)"
    by (simp add: sample_api_def version_lt_def)
  show ?thesis
    using a b
      notify_service_capabilities_gate [where self = "sample_api (3, 1)" and ctxt = "PObj 0"
        and service_name = "PStr ''cinder-volume''" and host = "PStr ''host1''"
        and capabilities = "PDict []" and w = world0]
      notify_service_capabilities_gate [where self = "sample_api (3, 0)" and ctxt = "PObj 0"
        and service_name = "PStr ''cinder-volume''" and host = "PStr ''host1''"
        and capabilities = "PDict []" and w = world0]
    by (simp add: world0_def)
qed

subsection \<open>The announcement of capabilities\<close>

text \<open>
  C4. \<open>update_service_capabilities\<close> always casts one envelope on a fanout context. When
  the client can send 3.3, the envelope is at version 3.3 and carries \<open>cluster_name\<close> and
  \<open>timestamp\<close>, the timestamp being the Codec's rendering of the caller's timestamp, or
  of the current time when the caller gave \<open>None\<close> (or another false value). When the
  client cannot send 3.3, the envelope is at version 3.0 and has neither a \<open>timestamp\<close>
  nor a \<open>cluster_name\<close> argument.
\<close>

theorem update_service_capabilities_envelope:
  "(can_send_version (client self) (3, 3) \<longrightarrow>
      update_service_capabilities self ctxt service_name host capabilities cluster_name
          timestamp w =
        (Inr PNone, w\<lparr>trace := trace w @ [Transport
           \<lparr>e_version = Some (3, 3), e_fanout = True, e_mode = Cast, e_ctxt = ctxt,
            e_method = ''update_service_capabilities'',
            e_args = [''service_name'' \<mapsto> service_name,
                      ''host'' \<mapsto> host,
                      ''capabilities'' \<mapsto> capabilities,
                      ''cluster_name'' \<mapsto> cluster_name,
                      ''timestamp'' \<mapsto> to_primitive self
                         (if timestamp = PNone then PDatetime (utcnow w)
                          else if truthy timestamp then timestamp
                          else PDatetime (utcnow w))]\<rparr>]\<rparr>)) \<and>
   (\<not> can_send_version (client self) (3, 3) \<longrightarrow>
      update_service_capabilities self ctxt service_name host capabilities cluster_name
          timestamp w =
        (Inr PNone, w\<lparr>trace := trace w @ [Transport
           \<lparr>e_version = Some (3, 0), e_fanout = True, e_mode = Cast, e_ctxt = ctxt,
            e_method = ''update_service_capabilities'',
            e_args = [''service_name'' \<mapsto> service_name,
                      ''host'' \<mapsto> host,
                      ''capabilities'' \<mapsto> capabilities]\<rparr>]\<rparr>) \<and>
      map (\<lambda>e. (e_args e ''timestamp'', e_args e ''cluster_name''))
        (sent self (UpdateServiceCapabilities ctxt service_name host capabilities cluster_name
           timestamp) w) = [(None, None)])"
  by (simp add: update_service_capabilities_def sent_def effects_def op_defs)

theorem update_service_capabilities_envelope_witness:
  "can_send_version (client (sample_api (3, 3))) (3, 3) \<and>
   update_service_capabilities (sample_api (3, 3)) (PObj 0) (PStr ''cinder-volume'')
       (PStr ''host1'') (PDict []) (PStr ''cluster1'') PNone world0 =
     (Inr PNone, \<lparr>utcnow = 1000, trace = [Transport
        \<lparr>e_version = Some (3, 3), e_fanout = True, e_mode = Cast, e_ctxt = PObj 0,
         e_method = ''update_service_capabilities'',
         e_args = [''service_name'' \<mapsto> PStr ''cinder-volume'',
                   ''host'' \<mapsto> PStr ''host1'',
                   ''capabilities'' \<mapsto> PDict [],
                   ''cluster_name'' \<mapsto> PStr ''cluster1'',
                   ''timestamp'' \<mapsto> PInt 1000]\<rparr>]\<rparr>) \<and>
   \<not> can_send_version (client (sample_api (3, 2))) (3, 3) \<and>
   update_service_capabilities (sample_api (3, 2)) (PObj 0) (PStr ''cinder-volume'')
       (PStr ''host1'') (PDict []) (PStr ''cluster1'') PNone world0 =
     (Inr PNone, \<lparr>utcnow = 1000, trace = [Transport
        \<lparr>e_version = Some (3, 0), e_fanout = True, e_mode = Cast, e_ctxt = PObj 0,
         e_method = ''update_service_capabilities'',
         e_args = [''service_name'' \<mapsto> PStr ''cinder-volume'',
                   ''host'' \<mapsto> PStr ''host1'',
                   ''capabilities'' \<mapsto> PDict []]\<rparr>]\<rparr>)"
proof -
  have a: "can_send_version (client (sample_api (3, 3))) (3, 3)"
    by (simp add: sample_api_def can_send_version_def version_le_def)
  have b: "\<not> can_send_version (client (sample_api (3, 2))) (3, 3)"
    by (simp add: sample_api_def can_send_version_def version_le_def)
  show ?thesis
    using a b
      update_service_capabilities_envelope [where self = "sample_api (3, 3)"
        and ctxt = "PObj 0" and service_name = "PStr ''cinder-volume''"
        and host = "PStr ''host1''" and capabilities = "PDict []"
        and cluster_name = "PStr ''cluster1''" and timestamp = PNone and w = world0]
      update_service_capabilities_envelope [where self = "sample_api (3, 2)"
        and ctxt = "PObj 0" and service_name = "PStr ''cinder-volume''"
        and host = "PStr ''host1''" and capabilities = "PDict []"
        and cluster_name = "PStr ''cluster1''" and timestamp = PNone and w = world0]
    by (simp add: sample_api_codec world0_def)
qed

subsection \<open>The operations with a single schema variant\<close>

text \<open>
  C5. Each of the six operations with one schema variant hands the transport its caller's
  arguments under their own names, changed only by the Codec where the source applies it:
  to every item of \<open>request_spec_list\<close> (and to \<open>group_spec\<close>) in the two group
  operations, to \<open>request_spec\<close> in \<open>retype\<close> and \<open>manage_existing\<close>, and nowhere in
  \<open>create_volume\<close> and \<open>get_pools\<close>. The first five cast and return \<open>None\<close>;
  \<open>get_pools\<close> is a \<open>call\<close> and returns the transport's reply. The two group operations
  are stated for a \<open>request_spec_list\<close> that can be iterated.
\<close>

theorem single_variant_envelopes:
  "(py_iter request_spec_list = Inr rsl \<longrightarrow>
      create_consistencygroup self ctxt grp request_spec_list filter_properties_list w =
        (Inr PNone, w\<lparr>trace := trace w @ [Transport
           \<lparr>e_version = None, e_fanout = False, e_mode = Cast, e_ctxt = ctxt,
            e_method = ''create_consistencygroup'',
            e_args = [''group'' \<mapsto> grp,
                      ''request_spec_list'' \<mapsto> PList (map (to_primitive self) rsl),
                      ''filter_properties_list'' \<mapsto> filter_properties_list]\<rparr>]\<rparr>)) \<and>
   (py_iter request_spec_list = Inr rsl \<longrightarrow>
      create_group self ctxt grp group_spec request_spec_list group_filter_properties
          filter_properties_list w =
        (Inr PNone, w\<lparr>trace := trace w @ [Transport
           \<lparr>e_version = None, e_fanout = False, e_mode = Cast, e_ctxt = ctxt,
            e_method = ''create_group'',
            e_args = [''group'' \<mapsto> grp,
                      ''group_spec'' \<mapsto> to_primitive self group_spec,
                      ''request_spec_list'' \<mapsto> PList (map (to_primitive self) rsl),
                      ''group_filter_properties'' \<mapsto> group_filter_properties,
                      ''filter_properties_list'' \<mapsto> filter_properties_list]\<rparr>]\<rparr>)) \<and>
   create_volume self ctxt volume snapshot_id image_id request_spec filter_properties w =
     (Inr PNone, w\<lparr>trace := trace w @ [CreateWorker volume, Transport
        \<lparr>e_version = None, e_fanout = False, e_mode = Cast, e_ctxt = ctxt,
         e_method = ''create_volume'',
         e_args = [''snapshot_id'' \<mapsto> snapshot_id,
                   ''image_id'' \<mapsto> image_id,
                   ''request_spec'' \<mapsto> request_spec,
                   ''filter_properties'' \<mapsto> filter_properties,
                   ''volume'' \<mapsto> volume]\<rparr>]\<rparr>) \<and>
   retype self ctxt volume request_spec filter_properties w =
     (Inr PNone, w\<lparr>trace := trace w @ [Transport
        \<lparr>e_version = None, e_fanout = False, e_mode = Cast, e_ctxt = ctxt,
         e_method = ''retype'',
         e_args = [''request_spec'' \<mapsto> to_primitive self request_spec,
                   ''filter_properties'' \<mapsto> filter_properties,
                   ''volume'' \<mapsto> volume]\<rparr>]\<rparr>) \<and>
   manage_existing self ctxt volume request_spec filter_properties w =
     (Inr PNone, w\<lparr>trace := trace w @ [Transport
        \<lparr>e_version = None, e_fanout = False, e_mode = Cast, e_ctxt = ctxt,
         e_method = ''manage_existing'',
         e_args = [''request_spec'' \<mapsto> to_primitive self request_spec,
                   ''filter_properties'' \<mapsto> filter_properties,
                   ''volume'' \<mapsto> volume]\<rparr>]\<rparr>) \<and>
   get_pools self ctxt filters w =
     (Inr (call_reply (client self)
        \<lparr>e_version = None, e_fanout = False, e_mode = Call, e_ctxt = ctxt,
         e_method = ''get_pools'', e_args = [''filters'' \<mapsto> filters]\<rparr>),
      w\<lparr>trace := trace w @ [Transport
        \<lparr>e_version = None, e_fanout = False, e_mode = Call, e_ctxt = ctxt,
         e_method = ''get_pools'', e_args = [''filters'' \<mapsto> filters]\<rparr>]\<rparr>)"
  by (simp add: create_consistencygroup_def create_group_def create_volume_def retype_def
      manage_existing_def get_pools_def op_defs)

theorem single_variant_envelopes_witness:
  "py_iter (PList [PDatetime 7, PInt 3]) = Inr [PDatetime 7, PInt 3] \<and>
   create_consistencygroup (sample_api (3, 3)) (PObj 0) (PObj 5) (PList [PDatetime 7, PInt 3])
       PNone world0 =
     (Inr PNone, \<lparr>utcnow = 1000, trace = [Transport
        \<lparr>e_version = None, e_fanout = False, e_mode = Cast, e_ctxt = PObj 0,
         e_method = ''create_consistencygroup'',
         e_args = [''group'' \<mapsto> PObj 5,
                   ''request_spec_list'' \<mapsto> PList [PInt 7, PInt 3],
                   ''filter_properties_list'' \<mapsto> PNone]\<rparr>]\<rparr>) \<and>
   create_group (sample_api (3, 3)) (PObj 0) (PObj 5) (PDatetime 9)
       (PList [PDatetime 7, PInt 3]) (PDict []) PNone world0 =
     (Inr PNone, \<lparr>utcnow = 1000, trace = [Transport
        \<lparr>e_version = None, e_fanout = False, e_mode = Cast, e_ctxt = PObj 0,
         e_method = ''create_group'',
         e_args = [''group'' \<mapsto> PObj 5,
                   ''group_spec'' \<mapsto> PInt 9,
                   ''request_spec_list'' \<mapsto> PList [PInt 7, PInt 3],
                   ''group_filter_properties'' \<mapsto> PDict [],
                   ''filter_properties_list'' \<mapsto> PNone]\<rparr>]\<rparr>)"
proof -
  have a: "py_iter (PList [PDatetime 7, PInt 3]) = Inr [PDatetime 7, PInt 3]"
    by simp
  show ?thesis
    using a
      single_variant_envelopes [where self = "sample_api (3, 3)" and ctxt = "PObj 0"
        and grp = "PObj 5" and request_spec_list = "PList [PDatetime 7, PInt 3]"
        and rsl = "[PDatetime 7, PInt 3]" and filter_properties_list = PNone
        and group_spec = "PDatetime 9" and group_filter_properties = "PDict []"
        and w = world0]
    by (simp add: sample_api_codec world0_def)
qed

subsection \<open>The default of \<open>request_spec_list\<close>\<close>

text \<open>
  C9. A call of \<open>create_consistencygroup\<close> or of \<open>create_group\<close> that leaves
  \<open>request_spec_list\<close> at its default \<open>None\<close> fails with \<open>TypeError\<close>, and the world is
  the one before the call: no method of the transport was invoked.
\<close>

theorem request_spec_list_default_unusable:
  "create_consistencygroup self ctxt grp PNone filter_properties_list w = (Inl TypeError, w) \<and>
   create_group self ctxt grp group_spec PNone group_filter_properties filter_properties_list w =
     (Inl TypeError, w)"
  by (simp add: create_consistencygroup_def create_group_def)

subsection \<open>The version of the legacy migration\<close>

text \<open>
  C10. When the client cannot send 3.3, the one envelope that \<open>migrate_volume\<close> casts is
  addressed at version 3.0 and names \<open>migrate_volume_to_host\<close>, whatever the cap is; a
  cap of 3.1 or of 3.2 is such a case.
\<close>

theorem migrate_volume_legacy_pinned:
  "(\<not> can_send_version (client self) (3, 3) \<longrightarrow>
      map e_version (sent self (MigrateVolume ctxt volume backend force_copy request_spec
         filter_properties) w) = [Some (3, 0)] \<and>
      map e_method (sent self (MigrateVolume ctxt volume backend force_copy request_spec
         filter_properties) w) = [''migrate_volume_to_host'']) \<and>
   (version_cap (client self) = (3, 1) \<or> version_cap (client self) = (3, 2) \<longrightarrow>
      map e_version (sent self (MigrateVolume ctxt volume backend force_copy request_spec
         filter_properties) w) = [Some (3, 0)] \<and>
      map e_method (sent self (MigrateVolume ctxt volume backend force_copy request_spec
         filter_properties) w) = [''migrate_volume_to_host''])"
  by (auto simp add: sent_def effects_def migrate_volume_def op_defs can_send_version_def
      version_le_def)

theorem migrate_volume_legacy_pinned_witness:
  "\<not> can_send_version (client (sample_api (2, 9))) (3, 3) \<and>
   map e_version (sent (sample_api (2, 9)) (MigrateVolume (PObj 0) (PObj 1) (PStr ''backendA'')
      (PBool True) PNone PNone) world0) = [Some (3, 0)] \<and>
   version_cap (client (sample_api (3, 1))) = (3, 1) \<and>
   map e_version (sent (sample_api (3, 1)) (MigrateVolume (PObj 0) (PObj 1) (PStr ''backendA'')
      (PBool True) PNone PNone) world0) = [Some (3, 0)] \<and>
   version_cap (client (sample_api (3, 2))) = (3, 2) \<and>
   map e_version (sent (sample_api (3, 2)) (MigrateVolume (PObj 0) (PObj 1) (PStr ''backendA'')
      (PBool True) PNone PNone) world0) = [Some (3, 0)]"
proof -
  have a: "\<not> can_send_version (client (sample_api (2, 9))) (3, 3)"
    by (simp add: sample_api_def can_send_version_def version_le_def)
  show ?thesis
    using a sample_api_cap [of "(3, 1)"] sample_api_cap [of "(3, 2)"]
      migrate_volume_legacy_pinned [where self = "sample_api (2, 9)" and ctxt = "PObj 0"
        and volume = "PObj 1" and backend = "PStr ''backendA''" and force_copy = "PBool True"
        and request_spec = PNone and filter_properties = PNone and w = world0]
      migrate_volume_legacy_pinned [where self = "sample_api (3, 1)" and ctxt = "PObj 0"
        and volume = "PObj 1" and backend = "PStr ''backendA''" and force_copy = "PBool True"
        and request_spec = PNone and filter_properties = PNone and w = world0]
      migrate_volume_legacy_pinned [where self = "sample_api (3, 2)" and ctxt = "PObj 0"
        and volume = "PObj 1" and backend = "PStr ''backendA''" and force_copy = "PBool True"
        and request_spec = PNone and filter_properties = PNone and w = world0]
    by simp
qed

subsection \<open>The effects of an invocation\<close>

text \<open>
  The claim C6 as it is written, that a transport call is the only effect of every
  invocation, fails for \<open>create_volume\<close>: it calls \<open>volume.create_worker()\<close> on the
  caller's volume before it casts.
\<close>

theorem create_volume_effects_counterexample:
  "\<not> list_all is_transport
       (effects (sample_api (3, 3))
          (CreateVolume (PObj 0) (PObj 1) PNone PNone PNone PNone) world0)"
  by (simp add: effects_def create_volume_def op_defs world0_def)

text \<open>
  C6, amended. An invocation changes the world only by adding its effects to the trace.
  These are the call of \<open>create_worker\<close> on the caller's volume, for \<open>create_volume\<close>
  alone, followed by the invocations of the transport: exactly one when the operation
  returns, none when it raises.
\<close>

theorem invoke_effects:
  "snd (invoke self rq w) = w\<lparr>trace := trace w @ effects self rq w\<rparr> \<and>
   effects self rq w = worker_calls rq @ map Transport (sent self rq w) \<and>
   length (sent self rq w) = (case fst (invoke self rq w) of Inl e \<Rightarrow> 0 | Inr r \<Rightarrow> 1)"
proof (cases rq)
  case (CreateConsistencygroup ctxt grp request_spec_list filter_properties_list)
  then show ?thesis
    by (cases "py_iter request_spec_list")
       (simp_all add: create_consistencygroup_def op_defs effects_def sent_def)
next
  case (CreateGroup ctxt grp group_spec request_spec_list group_filter_properties
      filter_properties_list)
  then show ?thesis
    by (cases "py_iter request_spec_list")
       (simp_all add: create_group_def op_defs effects_def sent_def)
next
  case (CreateVolume ctxt volume snapshot_id image_id request_spec filter_properties)
  then show ?thesis by (simp add: create_volume_def op_defs effects_def sent_def)
next
  case (MigrateVolume ctxt volume backend force_copy request_spec filter_properties)
  then show ?thesis by (simp add: migrate_volume_def op_defs effects_def sent_def)
next
  case (Retype ctxt volume request_spec filter_properties)
  then show ?thesis by (simp add: retype_def op_defs effects_def sent_def)
next
  case (ManageExisting ctxt volume request_spec filter_properties)
  then show ?thesis by (simp add: manage_existing_def op_defs effects_def sent_def)
next
  case (ExtendVolume ctxt volume new_size reservations request_spec filter_properties)
  then show ?thesis by (simp add: extend_volume_def op_defs effects_def sent_def)
next
  case (GetPools ctxt filters)
  then show ?thesis by (simp add: get_pools_def op_defs effects_def sent_def)
next
  case (UpdateServiceCapabilities ctxt service_name host capabilities cluster_name timestamp)
  then show ?thesis by (simp add: update_service_capabilities_def op_defs effects_def sent_def)
next
  case (NotifyServiceCapabilities ctxt service_name host capabilities)
  then show ?thesis by (simp add: notify_service_capabilities_def op_defs effects_def sent_def)
qed

theorem invoke_effects_witness:
  "effects (sample_api (3, 1)) (ExtendVolume (PObj 0) (PObj 1) (PInt 2) (PList []) PNone PNone)
     world0 = [] \<and>
   length (sent (sample_api (3, 1)) (GetPools (PObj 0) PNone) world0) = 1 \<and>
   effects (sample_api (3, 1)) (CreateVolume (PObj 0) (PObj 1) PNone PNone PNone PNone) world0 =
     CreateWorker (PObj 1) #
     map Transport (sent (sample_api (3, 1))
       (CreateVolume (PObj 0) (PObj 1) PNone PNone PNone PNone) world0)"
proof -
  have a: "fst (invoke (sample_api (3, 1))
      (ExtendVolume (PObj 0) (PObj 1) (PInt 2) (PList []) PNone PNone) world0) =
      Inl (ServiceTooOld ''extend_volume requires cinder-scheduler RPC API version >= 3.2.'')"
    by (simp add: extend_volume_def op_defs can_send_version_def version_le_def sample_api_def)
  have b: "fst (invoke (sample_api (3, 1)) (GetPools (PObj 0) PNone) world0) = Inr (PList [])"
    by (simp add: get_pools_def op_defs sample_api_def)
  show ?thesis
    using a b
      invoke_effects [of "sample_api (3, 1)"
        "ExtendVolume (PObj 0) (PObj 1) (PInt 2) (PList []) PNone PNone" world0]
      invoke_effects [of "sample_api (3, 1)" "GetPools (PObj 0) PNone" world0]
      invoke_effects [of "sample_api (3, 1)"
        "CreateVolume (PObj 0) (PObj 1) PNone PNone PNone PNone" world0]
    by simp
qed

subsection \<open>Repeatable envelopes\<close>

text \<open>
  The claim C7 as it is written, that identical arguments and an identical capability
  give identical argument mappings, fails for \<open>update_service_capabilities\<close> without a
  timestamp against a client that can send 3.3: the \<open>timestamp\<close> argument is the time
  of the call.
\<close>

theorem built_args_clock_counterexample:
  "built_args (sample_api (3, 3))
     (UpdateServiceCapabilities (PObj 0) (PStr ''cinder-volume'') (PStr ''host1'') (PDict [])
        (PStr ''cluster1'') PNone) \<lparr>utcnow = 1000, trace = []\<rparr> \<noteq>
   built_args (sample_api (3, 3))
     (UpdateServiceCapabilities (PObj 0) (PStr ''cinder-volume'') (PStr ''host1'') (PDict [])
        (PStr ''cluster1'') PNone) \<lparr>utcnow = 1001, trace = []\<rparr>"
proof
  assume "built_args (sample_api (3, 3))
     (UpdateServiceCapabilities (PObj 0) (PStr ''cinder-volume'') (PStr ''host1'') (PDict [])
        (PStr ''cluster1'') PNone) \<lparr>utcnow = 1000, trace = []\<rparr> =
   built_args (sample_api (3, 3))
     (UpdateServiceCapabilities (PObj 0) (PStr ''cinder-volume'') (PStr ''host1'') (PDict [])
        (PStr ''cluster1'') PNone) \<lparr>utcnow = 1001, trace = []\<rparr>"
  then have "map (\<lambda>m. m ''timestamp'') (built_args (sample_api (3, 3))
     (UpdateServiceCapabilities (PObj 0) (PStr ''cinder-volume'') (PStr ''host1'') (PDict [])
        (PStr ''cluster1'') PNone) \<lparr>utcnow = 1000, trace = []\<rparr>) =
   map (\<lambda>m. m ''timestamp'') (built_args (sample_api (3, 3))
     (UpdateServiceCapabilities (PObj 0) (PStr ''cinder-volume'') (PStr ''host1'') (PDict [])
        (PStr ''cluster1'') PNone) \<lparr>utcnow = 1001, trace = []\<rparr>)"
    by (rule arg_cong)
  then show False
    by (simp add: built_args_def sent_def effects_def update_service_capabilities_def op_defs
        sample_api_def can_send_version_def version_le_def)
qed

lemma built_args_eq:
  assumes "\<not> reads_clock self rq \<or> utcnow w1 = utcnow w2"
  shows "built_args self rq w1 = built_args self rq w2"
proof (cases rq)
  case (CreateConsistencygroup ctxt grp request_spec_list filter_properties_list)
  then show ?thesis
    by (cases "py_iter request_spec_list")
       (simp_all add: create_consistencygroup_def op_defs effects_def sent_def built_args_def)
next
  case (CreateGroup ctxt grp group_spec request_spec_list group_filter_properties
      filter_properties_list)
  then show ?thesis
    by (cases "py_iter request_spec_list")
       (simp_all add: create_group_def op_defs effects_def sent_def built_args_def)
next
  case (CreateVolume ctxt volume snapshot_id image_id request_spec filter_properties)
  then show ?thesis by (simp add: create_volume_def op_defs effects_def sent_def built_args_def)
next
  case (MigrateVolume ctxt volume backend force_copy request_spec filter_properties)
  then show ?thesis by (simp add: migrate_volume_def op_defs effects_def sent_def built_args_def)
next
  case (Retype ctxt volume request_spec filter_properties)
  then show ?thesis by (simp add: retype_def op_defs effects_def sent_def built_args_def)
next
  case (ManageExisting ctxt volume request_spec filter_properties)
  then show ?thesis by (simp add: manage_existing_def op_defs effects_def sent_def built_args_def)
next
  case (ExtendVolume ctxt volume new_size reservations request_spec filter_properties)
  then show ?thesis by (simp add: extend_volume_def op_defs effects_def sent_def built_args_def)
next
  case (GetPools ctxt filters)
  then show ?thesis by (simp add: get_pools_def op_defs effects_def sent_def built_args_def)
next
  case (UpdateServiceCapabilities ctxt service_name host capabilities cluster_name timestamp)
  with assms show ?thesis
    by (auto simp add: update_service_capabilities_def op_defs effects_def sent_def
        built_args_def)
next
  case (NotifyServiceCapabilities ctxt service_name host capabilities)
  then show ?thesis
    by (simp add: notify_service_capabilities_def op_defs effects_def sent_def built_args_def)
qed

text \<open>
  C7, amended. Two invocations with identical arguments against the same instance build
  identical argument mappings whenever the invocation does not read the clock, whatever
  the two worlds are; the one invocation that reads it (\<open>update_service_capabilities\<close>
  with no timestamp, against a client that can send 3.3) builds identical mappings when
  the two calls read the same time.
\<close>

theorem built_args_deterministic:
  "(\<not> reads_clock self rq \<longrightarrow> built_args self rq w1 = built_args self rq w2) \<and>
   (utcnow w1 = utcnow w2 \<longrightarrow> built_args self rq w1 = built_args self rq w2)"
  using built_args_eq by blast

theorem built_args_deterministic_witness:
  "\<not> reads_clock (sample_api (3, 3))
       (MigrateVolume (PObj 0) (PObj 1) (PStr ''backendA'') (PBool True) PNone PNone) \<and>
   built_args (sample_api (3, 3))
       (MigrateVolume (PObj 0) (PObj 1) (PStr ''backendA'') (PBool True) PNone PNone)
       \<lparr>utcnow = 1000, trace = []\<rparr> =
     built_args (sample_api (3, 3))
       (MigrateVolume (PObj 0) (PObj 1) (PStr ''backendA'') (PBool True) PNone PNone)
       \<lparr>utcnow = 1001, trace = [CreateWorker (PObj 9)]\<rparr> \<and>
   utcnow \<lparr>utcnow = 1000, trace = []\<rparr> =
     utcnow \<lparr>utcnow = 1000, trace = [CreateWorker (PObj 9)]\<rparr> \<and>
   built_args (sample_api (3, 3))
       (UpdateServiceCapabilities (PObj 0) (PStr ''cinder-volume'') (PStr ''host1'') (PDict [])
          (PStr ''cluster1'') PNone) \<lparr>utcnow = 1000, trace = []\<rparr> =
     built_args (sample_api (3, 3))
       (UpdateServiceCapabilities (PObj 0) (PStr ''cinder-volume'') (PStr ''host1'') (PDict [])
          (PStr ''cluster1'') PNone) \<lparr>utcnow = 1000, trace = [CreateWorker (PObj 9)]\<rparr>"
  using
    built_args_deterministic [of "sample_api (3, 3)"
      "MigrateVolume (PObj 0) (PObj 1) (PStr ''backendA'') (PBool True) PNone PNone"
      "\<lparr>utcnow = 1000, trace = []\<rparr>" "\<lparr>utcnow = 1001, trace = [CreateWorker (PObj 9)]\<rparr>"]
    built_args_deterministic [of "sample_api (3, 3)"
      "UpdateServiceCapabilities (PObj 0) (PStr ''cinder-volume'') (PStr ''host1'') (PDict [])
          (PStr ''cluster1'') PNone"
      "\<lparr>utcnow = 1000, trace = []\<rparr>" "\<lparr>utcnow = 1000, trace = [CreateWorker (PObj 9)]\<rparr>"]
  by simp

end
